theory Spec2Isabelle
  imports Complex_Main "HOL-Library.AList"
begin

section \<open>The product catalogue store of \<open>src/contexts/ProductContext.tsx\<close>\<close>

text \<open>
  The module keeps a list of products in React state, mirrors it into one
  \<open>localStorage\<close> slot and offers add, update, delete, filter and refresh.
  Products are JavaScript objects whose fields are read dynamically and copied with
  the spread operator, so they are modelled as objects, not as a fixed record.
\<close>

subsection \<open>JavaScript values\<close>

text \<open>
  A Number is an IEEE double: not-a-number, an infinity, or a sign with a non-negative
  magnitude (a zero magnitude gives the two zeros). The magnitude is kept as an exact
  rational; \<open>Fin s m\<close> is a Number when \<open>m\<close> is the magnitude of a double, and the
  arithmetic below always rounds to the nearest double.
\<close>

datatype sign = Pos | Neg

datatype jsnum = NaN | Inf sign | Fin sign rat

datatype jsval =
    JUndefined
  | JNull
  | JBool bool
  | JNum jsnum
  | JStr string
  | JArr "jsval list"
  | JObj "(string \<times> jsval) list"

text \<open>
  An object is the list of its own properties in insertion order (the keys are field
  names; array indices, which JavaScript would order first, are not used as keys). A
  product is such an object; the state holds a list of them, as the declared type
  \<open>Product[]\<close> says.
\<close>

type_synonym obj = "(string \<times> jsval) list"
type_synonym product = obj

text \<open>Reading a property: a missing one reads as \<open>undefined\<close>.\<close>

definition get_prop :: "obj \<Rightarrow> string \<Rightarrow> jsval" where
  "get_prop ob k = (case map_of ob k of None \<Rightarrow> JUndefined | Some v \<Rightarrow> v)"

text \<open>
  Defining a property in an object literal: an existing key keeps its place and takes
  the new value, a new key goes to the end.
\<close>

definition set_prop :: "string \<Rightarrow> jsval \<Rightarrow> obj \<Rightarrow> obj" where
  "set_prop k v ob = AList.update k v ob"

text \<open>
  The object literal \<open>{...base, k1: v1, ..., kn: vn}\<close>: the properties of \<open>base\<close> are
  copied into a fresh object in order, then each named property is defined in turn.
\<close>

definition spread :: "obj \<Rightarrow> obj \<Rightarrow> obj" where
  "spread src tgt = foldl (\<lambda>ob (k, v). set_prop k v ob) tgt src"

definition object_literal :: "obj \<Rightarrow> (string \<times> jsval) list \<Rightarrow> obj" where
  "object_literal base props = spread props (spread base [])"

text \<open>An object has each key once; the literals above keep it so.\<close>

definition wf_obj :: "obj \<Rightarrow> bool" where
  "wf_obj ob = distinct (map fst ob)"

text \<open>\<open>ToBoolean\<close>: the falsy values are \<open>undefined\<close>, \<open>null\<close>, \<open>false\<close>, the zeros,
  \<open>NaN\<close> and the empty string.\<close>

fun ToBoolean :: "jsval \<Rightarrow> bool" where
  "ToBoolean JUndefined = False"
| "ToBoolean JNull = False"
| "ToBoolean (JBool b) = b"
| "ToBoolean (JNum NaN) = False"
| "ToBoolean (JNum (Inf s)) = True"
| "ToBoolean (JNum (Fin s m)) = (m \<noteq> 0)"
| "ToBoolean (JStr s) = (s \<noteq> [])"
| "ToBoolean (JArr xs) = True"
| "ToBoolean (JObj ob) = True"

text \<open>\<open>a || b\<close>\<close>

definition js_or :: "jsval \<Rightarrow> jsval \<Rightarrow> jsval" where
  "js_or a b = (if ToBoolean a then a else b)"

text \<open>
  \<open>a === b\<close>. Numbers compare by value, with \<open>NaN\<close> unequal to itself and the two
  zeros equal. Arrays and objects compare by identity, which these values do not carry:
  two of them are taken to be different objects, as any two values read back from the
  persisted snapshot are. Identifiers and categories are strings by their declared types.
\<close>

fun num_eq :: "jsnum \<Rightarrow> jsnum \<Rightarrow> bool" where
  "num_eq NaN y = False"
| "num_eq x NaN = False"
| "num_eq (Inf s) (Inf t) = (s = t)"
| "num_eq (Fin s m) (Fin t n) = (m = n \<and> (s = t \<or> m = 0))"
| "num_eq x y = False"

fun strict_eq :: "jsval \<Rightarrow> jsval \<Rightarrow> bool" where
  "strict_eq JUndefined JUndefined = True"
| "strict_eq JNull JNull = True"
| "strict_eq (JBool a) (JBool b) = (a = b)"
| "strict_eq (JNum x) (JNum y) = num_eq x y"
| "strict_eq (JStr s) (JStr t) = (s = t)"
| "strict_eq a b = False"

subsection \<open>Arithmetic on doubles\<close>

text \<open>
  \<open>round_double s a\<close> is the double nearest to the magnitude \<open>a\<close> with sign \<open>s\<close>,
  ties going to the even significand: 53 significant bits down to the exponent
  \<open>-1074\<close> of the subnormal numbers, and an infinity from \<open>2^1024\<close> on.
\<close>

fun bitlen :: "int \<Rightarrow> nat" where
  "bitlen n = (if n \<le> 0 then 0 else Suc (bitlen (n div 2)))"

declare bitlen.simps [simp del]

definition pow2 :: "int \<Rightarrow> rat" where
  "pow2 e = (if 0 \<le> e then 2 ^ nat e else 1 / 2 ^ nat (- e))"

text \<open>The exponent \<open>e\<close> with \<open>2^e \<le> x < 2^(e+1)\<close>, for a positive \<open>x\<close>.\<close>

definition ilog2 :: "rat \<Rightarrow> int" where
  "ilog2 x =
     (if 1 \<le> x then int (bitlen \<lfloor>x\<rfloor>) - 1
      else let k = int (bitlen \<lfloor>1 / x\<rfloor>) - 1
           in if pow2 (- k) \<le> x then - k else - k - 1)"

definition round_half_even :: "rat \<Rightarrow> int" where
  "round_half_even r =
     (let f = \<lfloor>r\<rfloor>; d = r - of_int f
      in if d < 1 / 2 then f
         else if 1 / 2 < d then f + 1
         else if even f then f else f + 1)"

definition round_double :: "sign \<Rightarrow> rat \<Rightarrow> jsnum" where
  "round_double s a =
     (if a = 0 then Fin s 0
      else let q = max (ilog2 a - 52) (- 1074);
               r = of_int (round_half_even (a / pow2 q)) * pow2 q
           in if 2 ^ 1024 \<le> r then Inf s else Fin s r)"

definition sign_times :: "sign \<Rightarrow> sign \<Rightarrow> sign" where
  "sign_times s t = (if s = t then Pos else Neg)"

text \<open>\<open>x * y\<close> on Numbers.\<close>

fun js_times :: "jsnum \<Rightarrow> jsnum \<Rightarrow> jsnum" where
  "js_times NaN y = NaN"
| "js_times x NaN = NaN"
| "js_times (Inf s) (Inf t) = Inf (sign_times s t)"
| "js_times (Inf s) (Fin t n) = (if n = 0 then NaN else Inf (sign_times s t))"
| "js_times (Fin s m) (Inf t) = (if m = 0 then NaN else Inf (sign_times s t))"
| "js_times (Fin s m) (Fin t n) = round_double (sign_times s t) (m * n)"

subsection \<open>Platform functions\<close>

text \<open>
  The module calls the JSON codec, the ISO rendering of a time value and the
  platform's number conversions. They are not code of this module and are taken
  as parameters. \<open>JSON_parse\<close> is used at the type of the state it is assigned to;
  \<open>None\<close> is the \<open>SyntaxError\<close> it throws. \<open>Number_toString\<close> is asked only for the
  digits of numbers that are not integers below \<open>10^21\<close>; \<open>StringToNumber\<close> only by
  the numeric coercion of a value that is not a primitive number.
\<close>

record platform =
  JSON_parse :: "string \<Rightarrow> product list option"
  JSON_stringify :: "product list \<Rightarrow> string"
  toISOString :: "int \<Rightarrow> string"
  Number_toString :: "jsnum \<Rightarrow> string"
  StringToNumber :: "string \<Rightarrow> jsnum"

text \<open>
  The system clock: \<open>clk k\<close> is the \<open>k\<close>-th reading taken during a call, in
  milliseconds since the epoch. Nothing relates successive readings.
\<close>

type_synonym clock = "nat \<Rightarrow> int"

subsection \<open>\<open>String(v)\<close> and \<open>Date.now()\<close>\<close>

fun dec_digits :: "nat \<Rightarrow> string" where
  "dec_digits n =
     (if n < 10 then [''0123456789'' ! n]
      else dec_digits (n div 10) @ [''0123456789'' ! (n mod 10)])"

declare dec_digits.simps [simp del]

definition is_integral :: "rat \<Rightarrow> bool" where
  "is_integral m = (m = of_int \<lfloor>m\<rfloor>)"

fun num_to_string :: "platform \<Rightarrow> jsnum \<Rightarrow> string" where
  "num_to_string pf NaN = ''NaN''"
| "num_to_string pf (Inf Pos) = ''Infinity''"
| "num_to_string pf (Inf Neg) = ''-Infinity''"
| "num_to_string pf (Fin s m) =
     (if m = 0 then ''0''
      else if is_integral m \<and> m < 10 ^ 21
        then (if s = Neg then ''-'' else '''') @ dec_digits (nat \<lfloor>m\<rfloor>)
      else Number_toString pf (Fin s m))"

fun join_comma :: "string list \<Rightarrow> string" where
  "join_comma [] = ''''"
| "join_comma [s] = s"
| "join_comma (s # t # ts) = s @ '','' @ join_comma (t # ts)"

fun js_String :: "platform \<Rightarrow> jsval \<Rightarrow> string" where
  "js_String pf JUndefined = ''undefined''"
| "js_String pf JNull = ''null''"
| "js_String pf (JBool b) = (if b then ''true'' else ''false'')"
| "js_String pf (JNum x) = num_to_string pf x"
| "js_String pf (JStr s) = s"
| "js_String pf (JArr xs) =
     join_comma (map (\<lambda>x. case x of JUndefined \<Rightarrow> '''' | JNull \<Rightarrow> '''' | _ \<Rightarrow> js_String pf x) xs)"
| "js_String pf (JObj ob) = ''[object Object]''"

text \<open>\<open>Date.now()\<close>: a clock reading as a Number.\<close>

definition Date_now :: "int \<Rightarrow> jsval" where
  "Date_now t = JNum (round_double (if t < 0 then Neg else Pos) (of_int \<bar>t\<bar>))"

subsection \<open>\<open>parseFloat\<close> and the numeric coercion\<close>

text \<open>
  \<open>parseFloat\<close> skips leading white space and reads the longest prefix that is a
  decimal literal: an optional sign, then \<open>Infinity\<close> or digits with an optional
  fraction and exponent. Without such a prefix the result is \<open>NaN\<close>. A string is
  the list of its characters; of the standard's white space only the ASCII part is
  represented.
\<close>

definition pow10 :: "int \<Rightarrow> rat" where
  "pow10 e = (if 0 \<le> e then 10 ^ nat e else 1 / 10 ^ nat (- e))"

definition is_digit :: "char \<Rightarrow> bool" where
  "is_digit c = (c \<in> set ''0123456789'')"

definition digit_value :: "char \<Rightarrow> nat" where
  "digit_value c = of_char c - 48"

definition digits_value :: "string \<Rightarrow> nat" where
  "digits_value ds = foldl (\<lambda>n c. 10 * n + digit_value c) 0 ds"

definition is_white_space :: "char \<Rightarrow> bool" where
  "is_white_space c = (c \<in> set [CHR 0x09, CHR 0x0A, CHR 0x0B, CHR 0x0C, CHR 0x0D, CHR '' ''])"

definition exponent_part :: "string \<Rightarrow> int" where
  "exponent_part s =
     (case s of
        [] \<Rightarrow> 0
      | c # r \<Rightarrow>
          if c = CHR ''e'' \<or> c = CHR ''E'' then
            (case r of
               [] \<Rightarrow> 0
             | d # r' \<Rightarrow>
                 if d = CHR ''-'' then - int (digits_value (takeWhile is_digit r'))
                 else if d = CHR ''+'' then int (digits_value (takeWhile is_digit r'))
                 else int (digits_value (takeWhile is_digit r)))
          else 0)"

definition unsigned_decimal :: "sign \<Rightarrow> string \<Rightarrow> jsnum" where
  "unsigned_decimal sg s =
     (if take 8 s = ''Infinity'' then Inf sg
      else let ip = takeWhile is_digit s;
               r1 = dropWhile is_digit s;
               fp = (case r1 of [] \<Rightarrow> []
                     | c # r \<Rightarrow> if c = CHR ''.'' then takeWhile is_digit r else []);
               r2 = (case r1 of [] \<Rightarrow> []
                     | c # r \<Rightarrow> if c = CHR ''.'' then dropWhile is_digit r else r1)
           in if ip = [] \<and> fp = [] then NaN
              else round_double sg
                     (of_nat (digits_value (ip @ fp)) / 10 ^ length fp * pow10 (exponent_part r2)))"

definition parseFloat :: "string \<Rightarrow> jsnum" where
  "parseFloat s =
     (case dropWhile is_white_space s of
        [] \<Rightarrow> NaN
      | c # r \<Rightarrow>
          if c = CHR ''-'' then unsigned_decimal Neg r
          else if c = CHR ''+'' then unsigned_decimal Pos r
          else unsigned_decimal Pos (c # r))"

text \<open>
  \<open>s.replace(/[^0-9.-]+/g, '')\<close>: scanning from the left, every maximal run of
  characters outside the class \<open>[0-9.-]\<close> is replaced by the empty string.
\<close>

definition numeric_char :: "char \<Rightarrow> bool" where
  "numeric_char c = (is_digit c \<or> c = CHR ''.'' \<or> c = CHR ''-'')"

function strip_non_numeric :: "string \<Rightarrow> string" where
  "strip_non_numeric [] = []"
| "strip_non_numeric (c # cs) =
     (if numeric_char c then c # strip_non_numeric cs
      else strip_non_numeric (dropWhile (\<lambda>d. \<not> numeric_char d) cs))"
  by pat_completeness auto
termination
  by (relation "measure length") (auto simp: length_dropWhile_le less_Suc_eq_le)

text \<open>\<open>ToNumber\<close>, applied by \<open>*\<close> to an operand. An array or an object is first
  turned into its string.\<close>

fun ToNumber :: "platform \<Rightarrow> jsval \<Rightarrow> jsnum" where
  "ToNumber pf JUndefined = NaN"
| "ToNumber pf JNull = Fin Pos 0"
| "ToNumber pf (JBool b) = Fin Pos (if b then 1 else 0)"
| "ToNumber pf (JNum x) = x"
| "ToNumber pf (JStr s) = StringToNumber pf s"
| "ToNumber pf (JArr xs) = StringToNumber pf (js_String pf (JArr xs))"
| "ToNumber pf (JObj ob) = StringToNumber pf (js_String pf (JObj ob))"

subsection \<open>Seeding\<close>

text \<open>
  \<open>convertToProduct\<close> reads the clock only where a timestamp is missing; \<open>k\<close> is
  the number of readings taken before the call, and the result carries the number
  taken after it.
\<close>

definition convertToProduct :: "platform \<Rightarrow> clock \<Rightarrow> nat \<Rightarrow> obj \<Rightarrow> product \<times> nat" where
  "convertToProduct pf clk k product =
     (let created = get_prop product ''createdAt'';
          k1 = (if ToBoolean created then k else Suc k);
          updated = get_prop product ''updatedAt'';
          k2 = (if ToBoolean updated then k1 else Suc k1)
      in (object_literal product
            [(''id'', JStr (js_String pf (get_prop product ''id''))),
             (''media'', js_or (get_prop product ''media'') (JArr [])),
             (''createdAt'',
                if ToBoolean created then created else JStr (toISOString pf (clk k))),
             (''updatedAt'',
                if ToBoolean updated then updated else JStr (toISOString pf (clk k1)))],
          k2))"

text \<open>
  The price expression of \<open>convertToINR\<close>; \<open>typeof price === 'string'\<close> holds exactly
  of the string values.
\<close>

definition price_in_INR :: "platform \<Rightarrow> jsval \<Rightarrow> jsnum" where
  "price_in_INR pf price =
     (case price of
        JStr s \<Rightarrow> js_times (parseFloat (strip_non_numeric s)) (Fin Pos 75)
      | _ \<Rightarrow> js_times (ToNumber pf price) (Fin Pos 75))"

fun convertToINR :: "platform \<Rightarrow> clock \<Rightarrow> nat \<Rightarrow> obj list \<Rightarrow> product list \<times> nat" where
  "convertToINR pf clk k [] = ([], k)"
| "convertToINR pf clk k (product # rest) =
     (let (converted, k1) = convertToProduct pf clk k product;
          entry = object_literal converted
                    [(''price'', JNum (price_in_INR pf (get_prop product ''price'')))];
          (entries, k2) = convertToINR pf clk k1 rest
      in (entry # entries, k2))"

text \<open>The four seed lists are data of another module and are parameters here.\<close>

definition initialProducts ::
  "platform \<Rightarrow> clock \<Rightarrow> obj list \<Rightarrow> obj list \<Rightarrow> obj list \<Rightarrow> obj list \<Rightarrow> product list" where
  "initialProducts pf clk mensProducts womensProducts kidsProducts watchesProducts =
     (let (mens, k1) = convertToINR pf clk 0 mensProducts;
          (womens, k2) = convertToINR pf clk k1 womensProducts;
          (kids, k3) = convertToINR pf clk k2 kidsProducts;
          (watches, k4) = convertToINR pf clk k3 watchesProducts
      in mens @ womens @ kids @ watches)"

subsection \<open>The store\<close>

text \<open>
  The three pieces of React state and the browser's \<open>localStorage\<close>. A setter replaces
  its piece. \<open>getItem\<close> gives \<open>null\<close> (here \<open>None\<close>) for an absent key; reads and writes of
  the storage are taken to succeed (the module does not handle a refused write).
\<close>

record store =
  products :: "product list"
  loading :: bool
  error :: "string option"
  localStorage :: "string \<rightharpoonup> string"

definition setProducts :: "product list \<Rightarrow> store \<Rightarrow> store" where
  "setProducts ps st = st\<lparr>products := ps\<rparr>"

definition setLoading :: "bool \<Rightarrow> store \<Rightarrow> store" where
  "setLoading b st = st\<lparr>loading := b\<rparr>"

definition setError :: "string option \<Rightarrow> store \<Rightarrow> store" where
  "setError e st = st\<lparr>error := e\<rparr>"

definition getItem :: "store \<Rightarrow> string \<Rightarrow> string option" where
  "getItem st k = localStorage st k"

definition setItem :: "string \<Rightarrow> string \<Rightarrow> store \<Rightarrow> store" where
  "setItem k v st = st\<lparr>localStorage := (localStorage st)(k \<mapsto> v)\<rparr>"

definition saveProductsToStorage :: "platform \<Rightarrow> product list \<Rightarrow> store \<Rightarrow> store" where
  "saveProductsToStorage pf ps st = setItem ''products'' (JSON_stringify pf ps) st"

text \<open>Exceptions: the \<open>SyntaxError\<close> of the JSON parser and a plain \<open>Error\<close> with its
  message.\<close>

datatype exn = SyntaxError | Error string

text \<open>
  The initial state of \<open>ProductProvider\<close>: the persisted list if the slot holds a
  non-empty text, the seed list \<open>initial\<close> otherwise. A parse failure here is not
  caught.
\<close>

definition ProductProvider_init ::
  "platform \<Rightarrow> product list \<Rightarrow> (string \<rightharpoonup> string) \<Rightarrow> exn + store" where
  "ProductProvider_init pf initial storage =
     (case (case storage ''products'' of
              None \<Rightarrow> Some initial
            | Some storedProducts \<Rightarrow>
                if storedProducts \<noteq> [] then JSON_parse pf storedProducts
                else Some initial) of
        None \<Rightarrow> Inl SyntaxError
      | Some ps \<Rightarrow> Inr \<lparr>products = ps, loading = False, error = None, localStorage = storage\<rparr>)"

text \<open>
  Each operation is the closure of one render: \<open>products st\<close> is the list that render
  captured, and the state returned is the one the next render sees.
\<close>

definition newProduct :: "platform \<Rightarrow> clock \<Rightarrow> product \<Rightarrow> product" where
  "newProduct pf clk product =
     object_literal product
       [(''id'', JStr (js_String pf (Date_now (clk 0)))),
        (''inStock'', JBool True),
        (''sizes'', js_or (get_prop product ''sizes'')
                      (JArr [JStr ''S'', JStr ''M'', JStr ''L'', JStr ''XL''])),
        (''media'', js_or (get_prop product ''media'') (JArr [])),
        (''createdAt'', JStr (toISOString pf (clk 1))),
        (''updatedAt'', JStr (toISOString pf (clk 2)))]"

definition addProduct :: "platform \<Rightarrow> clock \<Rightarrow> product \<Rightarrow> store \<Rightarrow> store" where
  "addProduct pf clk product st =
     (let updatedProducts = products st @ [newProduct pf clk product]
      in saveProductsToStorage pf updatedProducts (setProducts updatedProducts st))"

text \<open>
  \<open>products.map\<close> in \<open>updateProduct\<close>: every entry whose identifier is strictly equal
  to the input's is replaced by a copy of the input stamped with a fresh clock reading;
  \<open>k\<close> counts the readings taken so far.
\<close>

fun update_entries :: "platform \<Rightarrow> clock \<Rightarrow> nat \<Rightarrow> product \<Rightarrow> product list \<Rightarrow> product list" where
  "update_entries pf clk k updatedProduct [] = []"
| "update_entries pf clk k updatedProduct (product # rest) =
     (if strict_eq (get_prop product ''id'') (get_prop updatedProduct ''id'')
      then object_literal updatedProduct [(''updatedAt'', JStr (toISOString pf (clk k)))]
             # update_entries pf clk (Suc k) updatedProduct rest
      else product # update_entries pf clk k updatedProduct rest)"

definition updateProduct :: "platform \<Rightarrow> clock \<Rightarrow> product \<Rightarrow> store \<Rightarrow> store" where
  "updateProduct pf clk updatedProduct st =
     (let updatedProducts = update_entries pf clk 0 updatedProduct (products st)
      in saveProductsToStorage pf updatedProducts (setProducts updatedProducts st))"

definition deleteProduct :: "platform \<Rightarrow> string \<Rightarrow> store \<Rightarrow> store" where
  "deleteProduct pf productId st =
     (let updatedProducts =
            filter (\<lambda>product. \<not> strict_eq (get_prop product ''id'') (JStr productId)) (products st)
      in saveProductsToStorage pf updatedProducts (setProducts updatedProducts st))"

definition getProductsByCategory :: "string \<Rightarrow> store \<Rightarrow> product list" where
  "getProductsByCategory category st =
     filter (\<lambda>product. if category = ''All'' then True
                        else strict_eq (get_prop product ''category'') (JStr category))
       (products st)"

subsection \<open>\<open>refreshProducts\<close>\<close>

text \<open>
  The \<open>try\<close> block returns the state it reached and the exception it threw, if any: the
  state updates made before a throw stay. The \<open>catch\<close> block records the message (and
  logs the exception, which the state does not show); the \<open>finally\<close> block clears the
  loading flag. The second component of the result is the exception the call ends
  with. \<open>initial\<close> is the value of the module's \<open>initialProducts\<close>.
\<close>

definition refresh_try :: "platform \<Rightarrow> product list \<Rightarrow> store \<Rightarrow> store \<times> exn option" where
  "refresh_try pf initial st =
     (let st1 = setLoading True st;
          st2 = setError None st1
      in case getItem st2 ''products'' of
           None \<Rightarrow> (setProducts initial st2, None)
         | Some storedProducts \<Rightarrow>
             if storedProducts \<noteq> []
             then (case JSON_parse pf storedProducts of
                     None \<Rightarrow> (st2, Some SyntaxError)
                   | Some parsed \<Rightarrow> (setProducts parsed st2, None))
             else (setProducts initial st2, None))"

definition refresh_catch :: "store \<times> exn option \<Rightarrow> store \<times> exn option" where
  "refresh_catch r =
     (case snd r of
        None \<Rightarrow> r
      | Some err \<Rightarrow> (setError (Some ''Failed to refresh products'') (fst r), None))"

definition refresh_finally :: "store \<times> exn option \<Rightarrow> store \<times> exn option" where
  "refresh_finally r = (setLoading False (fst r), snd r)"

definition refreshProducts :: "platform \<Rightarrow> product list \<Rightarrow> store \<Rightarrow> store \<times> exn option" where
  "refreshProducts pf initial st =
     refresh_finally (refresh_catch (refresh_try pf initial st))"

subsection \<open>\<open>useProducts\<close>\<close>

text \<open>
  \<open>useContext\<close> gives the value of the nearest enclosing provider, or the context's
  default when there is none. \<open>ProductContext\<close> is created with the default
  \<open>undefined\<close>, and a \<open>ProductProvider\<close> always provides a value.
\<close>

definition useContext :: "'a \<Rightarrow> 'a list \<Rightarrow> 'a" where
  "useContext dflt providers = (case providers of [] \<Rightarrow> dflt | v # _ \<Rightarrow> v)"

definition useProducts :: "store list \<Rightarrow> exn + store" where
  "useProducts providers =
     (case useContext None (map Some providers) of
        None \<Rightarrow> Inl (Error ''useProducts must be used within a ProductProvider'')
      | Some context \<Rightarrow> Inr context)"

subsection \<open>Example data\<close>

text \<open>
  A platform for the examples. Its parser accepts the text of the empty array and
  rejects every other text; the examples store only such texts as a browser rejects
  too. What the other four functions answer does not matter in the examples, and they
  are constant here.
\<close>

definition example_platform :: platform where
  "example_platform =
     \<lparr>JSON_parse = (\<lambda>s. if s = ''[]'' then Some [] else None),
      JSON_stringify = (\<lambda>ps. ''[]''),
      toISOString = (\<lambda>t. ''''),
      Number_toString = (\<lambda>x. ''''),
      StringToNumber = (\<lambda>s. NaN)\<rparr>"

definition empty_store :: store where
  "empty_store = \<lparr>products = [], loading = False, error = None, localStorage = Map.empty\<rparr>"

definition shirt :: product where
  "shirt = [(''id'', JStr ''1''), (''name'', JStr ''Shirt''), (''category'', JStr ''Men''),
            (''price'', JNum (Fin Pos 750)), (''createdAt'', JStr ''2024-01-01T00:00:00.000Z'')]"

definition watch :: product where
  "watch = [(''id'', JStr ''2''), (''name'', JStr ''Watch''), (''category'', JStr ''Watches''),
            (''price'', JNum (Fin Pos 3000))]"

definition two_products :: store where
  "two_products = \<lparr>products = [shirt, watch], loading = False, error = None,
                    localStorage = Map.empty\<rparr>"

definition failed_before :: store where
  "failed_before = \<lparr>products = [shirt], loading = False,
                     error = Some ''Failed to refresh products'',
                     localStorage = [''products'' \<mapsto> ''[]'']\<rparr>"

definition corrupt_slot :: store where
  "corrupt_slot = \<lparr>products = [shirt], loading = False, error = None,
                    localStorage = [''products'' \<mapsto> ''{not json'']\<rparr>"

definition blank_slot :: store where
  "blank_slot = \<lparr>products = [shirt], loading = False, error = None,
                  localStorage = [''products'' \<mapsto> '''']\<rparr>"

definition seed_a :: obj where
  "seed_a = [(''id'', JNum (Fin Pos 1)), (''name'', JStr ''Shirt''), (''price'', JStr ''$10.00'')]"

definition seed_b :: obj where
  "seed_b = [(''id'', JNum (Fin Pos 2)), (''name'', JStr ''Dress''), (''price'', JNum (Fin Pos 10)),
             (''createdAt'', JStr ''2024-01-01T00:00:00.000Z'')]"

text \<open>The state after start-up when the first two source lists hold the record
  \<open>seed_a\<close> each and nothing is persisted.\<close>

definition seeded_twice :: store where
  "seeded_twice =
     \<lparr>products = initialProducts example_platform (\<lambda>k. 1700000000000) [seed_a] [seed_a] [] [],
      loading = False, error = None, localStorage = Map.empty\<rparr>"

section \<open>Auxiliary facts\<close>

subsection \<open>Objects\<close>

lemma map_of_set_prop: "map_of (set_prop k v ob) = (map_of ob)(k \<mapsto> v)"
  by (simp add: set_prop_def update_conv')

lemma map_of_spread: "map_of (spread src tgt) = map_of tgt ++ map_of (rev src)"
proof (induction src arbitrary: tgt)
  case Nil
  then show ?case by (simp add: spread_def)
next
  case (Cons a src)
  obtain k v where a: "a = (k, v)" by (cases a)
  have "spread (a # src) tgt = spread src (set_prop k v tgt)"
    by (simp add: spread_def a)
  then show ?case
    using Cons.IH [of "set_prop k v tgt"]
    by (simp add: a map_of_set_prop fun_eq_iff map_add_def split: option.splits)
qed

lemma set_prop_fresh: "k \<notin> fst ` set ob \<Longrightarrow> set_prop k v ob = ob @ [(k, v)]"
  by (induction ob) (auto simp: set_prop_def)

lemma spread_append: "distinct (map fst (tgt @ src)) \<Longrightarrow> spread src tgt = tgt @ src"
proof (induction src arbitrary: tgt)
  case Nil
  then show ?case by (simp add: spread_def)
next
  case (Cons a src)
  obtain k v where a: "a = (k, v)" by (cases a)
  have fresh: "k \<notin> fst ` set tgt" using Cons.prems by (auto simp: a)
  have "spread (a # src) tgt = spread src (tgt @ [(k, v)])"
    by (simp add: spread_def a set_prop_fresh [OF fresh])
  also have "\<dots> = (tgt @ [(k, v)]) @ src"
    using Cons.prems by (intro Cons.IH) (simp add: a)
  finally show ?case by (simp add: a)
qed

lemma spread_wf: "wf_obj ob \<Longrightarrow> spread ob [] = ob"
  using spread_append [of "[]" ob] by (simp add: wf_obj_def)

lemma object_literal_one: "wf_obj ob \<Longrightarrow> object_literal ob [(k, v)] = set_prop k v ob"
  by (simp add: object_literal_def spread_wf) (simp add: spread_def)

lemma get_prop_object_literal:
  "wf_obj ob \<Longrightarrow> get_prop (object_literal ob props) k =
     (case map_of (rev props) k of None \<Rightarrow> get_prop ob k | Some v \<Rightarrow> v)"
  by (simp add: get_prop_def object_literal_def map_of_spread spread_wf map_add_def
      split: option.splits)

lemma map_of_object_literal:
  "wf_obj ob \<Longrightarrow> map_of (object_literal ob props) = map_of ob ++ map_of (rev props)"
  by (simp add: object_literal_def map_of_spread spread_wf)

lemma get_prop_object_literal_last:
  "get_prop (object_literal ob [(k, v)]) k = v"
  by (simp add: get_prop_def object_literal_def map_of_spread)

lemma absent_falsy: "map_of ob k = None \<Longrightarrow> \<not> ToBoolean (get_prop ob k)"
  by (simp add: get_prop_def)

lemma strict_eq_JStr: "strict_eq v (JStr s) = (v = JStr s)"
  by (cases v) auto

subsection \<open>Rounding\<close>

lemma floor_rat_numeral_div:
  "\<lfloor>(numeral a :: rat) / numeral b\<rfloor> = numeral a div numeral b"
  by (metis floor_divide_of_int_eq of_int_numeral)

lemma floor_rat_one_div: "\<lfloor>(1 :: rat) / numeral b\<rfloor> = 1 div numeral b"
  by (metis floor_divide_of_int_eq of_int_numeral of_int_1)

lemmas num_eval = floor_rat_numeral_div floor_rat_one_div bitlen.simps pow2_def ilog2_def
  round_half_even_def round_double_def sign_times_def Let_def

lemmas scan_eval = parseFloat_def unsigned_decimal_def exponent_part_def
  is_white_space_def digits_value_def digit_value_def is_digit_def pow10_def Let_def

lemma bitlen_le: "n < 2 ^ k \<Longrightarrow> bitlen n \<le> k"
proof (induction k arbitrary: n)
  case 0
  then show ?case by (simp add: bitlen.simps)
next
  case (Suc k)
  show ?case
  proof (cases "n \<le> 0")
    case True
    then show ?thesis by (simp add: bitlen.simps)
  next
    case False
    have "n div 2 < 2 ^ k" using Suc.prems by simp
    then have "bitlen (n div 2) \<le> k" by (rule Suc.IH)
    then show ?thesis using False by (simp add: bitlen.simps)
  qed
qed

lemma bitlen_pos: "0 < n \<Longrightarrow> 1 \<le> bitlen n"
  by (simp add: bitlen.simps)

lemma round_half_even_of_int: "round_half_even (of_int z) = z"
  by (simp add: round_half_even_def)

lemma pow2_neg: "pow2 (- int d) = 1 / 2 ^ d"
  by (cases "d = 0") (simp_all add: pow2_def)

text \<open>An integer below \<open>2^53\<close> is a double: rounding leaves it as it is.\<close>

lemma round_double_of_int:
  assumes "0 \<le> n" and "n < 2 ^ 53"
  shows "round_double s (of_int n) = Fin s (of_int n)"
proof (cases "n = 0")
  case True
  then show ?thesis by (simp add: round_double_def)
next
  case False
  then have pos: "0 < n" using assms(1) by simp
  then have one: "(1::rat) \<le> of_int n" by simp
  have l: "ilog2 (of_int n) = int (bitlen n) - 1"
    using one by (simp add: ilog2_def)
  have b1: "1 \<le> bitlen n" using pos by (rule bitlen_pos)
  have b2: "bitlen n \<le> 53" using assms(2) by (rule bitlen_le)
  define d where "d = 53 - bitlen n"
  have q: "max (ilog2 (of_int n) - 52) (- 1074) = - int d"
    using b1 b2 by (simp add: l d_def)
  have scale_up: "(of_int n :: rat) / pow2 (- int d) = of_int (n * 2 ^ d)"
    by (simp add: pow2_neg)
  have scale_down: "(of_int (n * 2 ^ d) :: rat) * pow2 (- int d) = of_int n"
    by (simp add: pow2_neg)
  have "(of_int n :: rat) < of_int (2 ^ 53)" using assms(2) by (simp only: of_int_less_iff)
  also have "(of_int (2 ^ 53) :: rat) \<le> 2 ^ 1024" by simp
  finally have small: "\<not> (2 ^ 1024 \<le> (of_int n :: rat))" by simp
  have nz: "(of_int n :: rat) \<noteq> 0" using pos by simp
  show ?thesis
    unfolding round_double_def Let_def q scale_up round_half_even_of_int scale_down
    using nz small by simp
qed

lemma js_times_int:
  assumes "0 \<le> m" and "0 \<le> n" and "m * n < 2 ^ 53"
  shows "js_times (Fin s (of_int m)) (Fin t (of_int n)) = Fin (sign_times s t) (of_int (m * n))"
  using round_double_of_int [of "m * n" "sign_times s t"] assms by simp

subsection \<open>Strings\<close>

lemma strip_non_numeric_filter: "strip_non_numeric s = filter numeric_char s"
proof (induction s rule: strip_non_numeric.induct)
  case 1
  then show ?case by simp
next
  case (2 c cs)
  have "filter numeric_char (dropWhile (\<lambda>d. \<not> numeric_char d) cs) = filter numeric_char cs"
    by (induction cs) simp_all
  with 2 show ?case by simp
qed

lemma js_String_Date_now:
  assumes "\<bar>t\<bar> < 2 ^ 53"
  shows "js_String pf (Date_now t) = (if t < 0 then ''-'' else '''') @ dec_digits (nat \<bar>t\<bar>)"
proof -
  define a where "a = \<bar>t\<bar>"
  have a0: "0 \<le> a" and a53: "a < 2 ^ 53" using assms by (simp_all add: a_def)
  have dn: "Date_now t = JNum (Fin (if t < 0 then Neg else Pos) (of_int a))"
    unfolding Date_now_def a_def [symmetric] by (simp only: round_double_of_int [OF a0 a53])
  have "a < 10 ^ 21" using a53 by simp
  then have "(of_int a :: rat) < of_int (10 ^ 21)" by (simp only: of_int_less_iff)
  then have lt: "(of_int a :: rat) < 10 ^ 21" by simp
  have z: "dec_digits 0 = ''0''" by (simp add: dec_digits.simps)
  have neg: "t < 0 \<Longrightarrow> a \<noteq> 0" by (simp add: a_def)
  have "num_to_string pf (Fin (if t < 0 then Neg else Pos) (of_int a)) =
          (if t < 0 then ''-'' else '''') @ dec_digits (nat a)"
    using lt a0 neg by (cases "a = 0") (auto simp: is_integral_def z)
  then show ?thesis by (simp add: dn a_def)
qed

lemma dec_digits_example: "dec_digits 1700000000000 = ''1700000000000''"
  by (simp add: dec_digits.simps)

lemma js_String_Date_now_example:
  "js_String pf (Date_now 1700000000000) = ''1700000000000''"
  using js_String_Date_now [of 1700000000000 pf] dec_digits_example by simp

subsection \<open>Seeding\<close>

lemma convertToINR_Nil: "convertToINR pf clk k [] = ([], k)"
  by simp

lemma convertToINR_prices:
  "map (\<lambda>e. get_prop e ''price'') (fst (convertToINR pf clk k rs)) =
   map (\<lambda>r. JNum (price_in_INR pf (get_prop r ''price''))) rs"
proof (induction rs arbitrary: k)
  case Nil
  then show ?case by simp
next
  case (Cons r rs)
  obtain c k1 where c: "convertToProduct pf clk k r = (c, k1)"
    by (cases "convertToProduct pf clk k r")
  obtain es k2 where es: "convertToINR pf clk k1 rs = (es, k2)"
    by (cases "convertToINR pf clk k1 rs")
  have "map (\<lambda>e. get_prop e ''price'') es =
        map (\<lambda>r. JNum (price_in_INR pf (get_prop r ''price''))) rs"
    using Cons.IH [of k1] by (simp add: es)
  then show ?case
    by (simp add: c es get_prop_object_literal_last)
qed

lemma initialProducts_prices:
  "map (\<lambda>e. get_prop e ''price'') (initialProducts pf clk mens womens kids watches) =
   map (\<lambda>r. JNum (price_in_INR pf (get_prop r ''price''))) (mens @ womens @ kids @ watches)"
proof -
  have c: "map (\<lambda>e. get_prop e ''price'') es =
           map (\<lambda>r. JNum (price_in_INR pf (get_prop r ''price''))) rs"
    if "convertToINR pf clk k rs = (es, k')" for k rs es k'
    using convertToINR_prices [of pf clk k rs] that by simp
  show ?thesis
    by (simp add: initialProducts_def Let_def c split: prod.splits)
qed

lemma price_in_INR_string:
  "price_in_INR pf (JStr s) = js_times (parseFloat (filter numeric_char s)) (Fin Pos 75)"
  by (simp add: price_in_INR_def strip_non_numeric_filter)

lemma price_in_INR_number: "price_in_INR pf (JNum x) = js_times x (Fin Pos 75)"
  by (simp add: price_in_INR_def)

lemma parseFloat_ten: "parseFloat ''10.00'' = Fin Pos 10"
  by (simp add: scan_eval) (simp add: num_eval)

text \<open>Values of \<open>parseFloat\<close>, as a browser gives them.\<close>

lemma parseFloat_examples:
  "parseFloat ''  -1.5e3xyz'' = Fin Neg 1500"
  "parseFloat ''1.2.3'' = Fin Pos (5404319552844595 / 4503599627370496)"
  "parseFloat ''10-20'' = Fin Pos 10"
  "parseFloat ''5.e2'' = Fin Pos 500"
  "parseFloat ''1e-7'' = Fin Pos (944473296573929 / 9444732965739290427392)"
  "parseFloat ''1e30'' = Fin Pos 1000000000000000019884624838656"
  by (simp_all add: scan_eval) (simp_all add: num_eval)

lemma parseFloat_examples_special:
  "parseFloat ''-0'' = Fin Neg 0"
  "parseFloat ''.'' = NaN"
  "parseFloat ''-'' = NaN"
  "parseFloat '''' = NaN"
  "parseFloat ''-Infinity'' = Inf Neg"
  by (simp_all add: scan_eval round_double_def)

lemma price_dollar_ten: "price_in_INR pf (JStr ''$10.00'') = Fin Pos 750"
  by (simp add: price_in_INR_string numeric_char_def is_digit_def parseFloat_ten)
    (simp add: num_eval)

lemma price_number_ten: "price_in_INR pf (JNum (Fin Pos 10)) = Fin Pos 750"
  by (simp add: price_in_INR_number) (simp add: num_eval)

lemma price_in_INR_int:
  assumes "0 \<le> n" and "n * 75 < 2 ^ 53"
  shows "price_in_INR pf (JNum (Fin s (of_int n))) = Fin s (of_int (n * 75))"
proof -
  have "js_times (Fin s (of_int n)) (Fin Pos (of_int 75)) = Fin (sign_times s Pos) (of_int (n * 75))"
    using assms by (intro js_times_int) simp_all
  moreover have "sign_times s Pos = s" by (cases s) (simp_all add: sign_times_def)
  ultimately show ?thesis by (simp add: price_in_INR_number)
qed

text \<open>
  Further prices, as the code computes them. The product of \<open>19.99\<close> and \<open>75\<close> is
  rounded twice, on parsing and on multiplying, and is the double below \<open>1499.25\<close>.
  The class \<open>[0-9.-]\<close> keeps every dot and hyphen, so the dot of \<open>Rs.\<close> becomes a
  decimal point. A text without digits, or a missing price, gives \<open>NaN\<close>.
\<close>

lemma price_in_INR_examples:
  "price_in_INR pf (JStr ''19.99'') = Fin Pos (6593771231772671 / 4398046511104)"
  "price_in_INR pf (JStr ''1,299.50'') = Fin Pos (194925 / 2)"
  "price_in_INR pf (JStr ''Rs. 500'') = Fin Pos (75 / 2)"
proof -
  have s: "filter numeric_char ''19.99'' = ''19.99''"
    "filter numeric_char ''1,299.50'' = ''1299.50''"
    "filter numeric_char ''Rs. 500'' = ''.500''"
    by (simp_all add: numeric_char_def is_digit_def)
  have p: "parseFloat ''19.99'' = Fin Pos (5626684784446013 / 281474976710656)"
    "parseFloat ''1299.50'' = Fin Pos (2599 / 2)"
    "parseFloat ''.500'' = Fin Pos (1 / 2)"
    by (simp_all add: scan_eval) (simp_all add: num_eval)
  have m: "js_times (Fin Pos (5626684784446013 / 281474976710656)) (Fin Pos 75)
             = Fin Pos (6593771231772671 / 4398046511104)"
    "js_times (Fin Pos (2599 / 2)) (Fin Pos 75) = Fin Pos (194925 / 2)"
    "js_times (Fin Pos (1 / 2)) (Fin Pos 75) = Fin Pos (75 / 2)"
    by simp_all (simp_all add: num_eval)
  show "price_in_INR pf (JStr ''19.99'') = Fin Pos (6593771231772671 / 4398046511104)"
    by (simp only: price_in_INR_string s p m)
  show "price_in_INR pf (JStr ''1,299.50'') = Fin Pos (194925 / 2)"
    by (simp only: price_in_INR_string s p m)
  show "price_in_INR pf (JStr ''Rs. 500'') = Fin Pos (75 / 2)"
    by (simp only: price_in_INR_string s p m)
qed

lemma price_in_INR_examples_nan:
  "price_in_INR pf (JStr ''N/A'') = NaN"
  "price_in_INR pf JUndefined = NaN"
  by (simp_all add: price_in_INR_def strip_non_numeric_filter numeric_char_def is_digit_def
      parseFloat_def)

lemma convertToINR_example:
  "convertToINR pf clk k [seed_a] =
     ([[(''id'', JStr ''1''), (''name'', JStr ''Shirt''), (''price'', JNum (Fin Pos 750)),
        (''media'', JArr []),
        (''createdAt'', JStr (toISOString pf (clk k))),
        (''updatedAt'', JStr (toISOString pf (clk (Suc k))))]], Suc (Suc k))"
  by (simp add: seed_a_def convertToProduct_def Let_def get_prop_def js_or_def
      object_literal_def spread_def set_prop_def price_dollar_ten is_integral_def dec_digits.simps)

subsection \<open>The operations on the store\<close>

lemma newProduct_fields:
  assumes "wf_obj product"
  shows "get_prop (newProduct pf clk product) ''id'' = JStr (js_String pf (Date_now (clk 0)))"
    and "get_prop (newProduct pf clk product) ''inStock'' = JBool True"
    and "get_prop (newProduct pf clk product) ''sizes'' =
          (if ToBoolean (get_prop product ''sizes'') then get_prop product ''sizes''
           else JArr [JStr ''S'', JStr ''M'', JStr ''L'', JStr ''XL''])"
    and "get_prop (newProduct pf clk product) ''media'' =
          (if ToBoolean (get_prop product ''media'') then get_prop product ''media'' else JArr [])"
    and "get_prop (newProduct pf clk product) ''createdAt'' = JStr (toISOString pf (clk 1))"
    and "get_prop (newProduct pf clk product) ''updatedAt'' = JStr (toISOString pf (clk 2))"
  using assms by (simp_all add: newProduct_def get_prop_object_literal js_or_def)

lemma newProduct_other:
  assumes "wf_obj product"
    and "k \<notin> {''id'', ''inStock'', ''sizes'', ''media'', ''createdAt'', ''updatedAt''}"
  shows "map_of (newProduct pf clk product) k = map_of product k"
  using assms by (simp add: newProduct_def map_of_object_literal map_add_def)

lemma addProduct_store:
  "products (addProduct pf clk product st) = products st @ [newProduct pf clk product]"
  "localStorage (addProduct pf clk product st) =
     (localStorage st)(''products'' \<mapsto> JSON_stringify pf (products st @ [newProduct pf clk product]))"
  "loading (addProduct pf clk product st) = loading st"
  "error (addProduct pf clk product st) = error st"
  by (simp_all add: addProduct_def saveProductsToStorage_def setItem_def setProducts_def Let_def)

lemma update_entries_length: "length (update_entries pf clk k x ps) = length ps"
  by (induction ps arbitrary: k) simp_all

lemma update_entries_nth:
  "i < length ps \<Longrightarrow>
   update_entries pf clk k x ps ! i =
     (if strict_eq (get_prop (ps ! i) ''id'') (get_prop x ''id'')
      then object_literal x
             [(''updatedAt'', JStr (toISOString pf
                (clk (k + length (filter (\<lambda>p. strict_eq (get_prop p ''id'') (get_prop x ''id''))
                                    (take i ps))))))]
      else ps ! i)"
proof (induction ps arbitrary: i k)
  case Nil
  then show ?case by simp
next
  case (Cons p ps)
  show ?case
  proof (cases i)
    case 0
    then show ?thesis by simp
  next
    case (Suc j)
    then have j: "j < length ps" using Cons.prems by simp
    show ?thesis
      using Cons.IH [OF j, of "Suc k"] Cons.IH [OF j, of k] by (simp add: Suc)
  qed
qed

lemma update_entries_no_match:
  "\<forall>p \<in> set ps. \<not> strict_eq (get_prop p ''id'') (get_prop x ''id'') \<Longrightarrow>
   update_entries pf clk k x ps = ps"
  by (induction ps arbitrary: k) simp_all

lemma updateProduct_store:
  "products (updateProduct pf clk x st) = update_entries pf clk 0 x (products st)"
  "localStorage (updateProduct pf clk x st) =
     (localStorage st)(''products'' \<mapsto> JSON_stringify pf (update_entries pf clk 0 x (products st)))"
  "loading (updateProduct pf clk x st) = loading st"
  "error (updateProduct pf clk x st) = error st"
  by (simp_all add: updateProduct_def saveProductsToStorage_def setItem_def setProducts_def Let_def)

lemma deleteProduct_store:
  "products (deleteProduct pf i st) =
     filter (\<lambda>product. \<not> strict_eq (get_prop product ''id'') (JStr i)) (products st)"
  "localStorage (deleteProduct pf i st) =
     (localStorage st)(''products'' \<mapsto> JSON_stringify pf
        (filter (\<lambda>product. \<not> strict_eq (get_prop product ''id'') (JStr i)) (products st)))"
  "loading (deleteProduct pf i st) = loading st"
  "error (deleteProduct pf i st) = error st"
  by (simp_all add: deleteProduct_def saveProductsToStorage_def setItem_def setProducts_def Let_def)

lemma ProductProvider_init_example:
  "ProductProvider_init example_platform [shirt, watch] Map.empty = Inr two_products"
  "ProductProvider_init example_platform
     (initialProducts example_platform (\<lambda>k. 1700000000000) [seed_a] [seed_a] [] []) Map.empty
   = Inr seeded_twice"
  by (simp_all add: ProductProvider_init_def two_products_def seeded_twice_def)

lemma length_filter_split:
  "length (filter (\<lambda>x. \<not> P x) xs) + length (filter P xs) = length xs"
  by (induction xs) simp_all

lemma refresh_cases:
  "refreshProducts pf ini st =
     (case localStorage st ''products'' of
        None \<Rightarrow> (st\<lparr>products := ini, loading := False, error := None\<rparr>, None)
      | Some s \<Rightarrow>
          if s = [] then (st\<lparr>products := ini, loading := False, error := None\<rparr>, None)
          else (case JSON_parse pf s of
                  None \<Rightarrow> (st\<lparr>loading := False, error := Some ''Failed to refresh products''\<rparr>, None)
                | Some ps \<Rightarrow> (st\<lparr>products := ps, loading := False, error := None\<rparr>, None)))"
  by (simp add: refreshProducts_def refresh_finally_def refresh_catch_def refresh_try_def
      setLoading_def setError_def setProducts_def getItem_def Let_def split: option.splits)

section \<open>Properties\<close>

text \<open>
  C1. The seed list is the four source lists converted in order, one product for each
  record, and the price of each product is the record's price times \<open>75\<close> as a Number.
  A price that is a string is first stripped of every character outside \<open>[0-9.-]\<close>
  and then parsed; any other price is multiplied as it is (after numeric coercion).
  So the prices \<open>$10.00\<close> and \<open>10\<close> both give \<open>750\<close>, in each of the four lists. For an
  integer price the product is exact as long as it stays below \<open>2^53\<close>.
\<close>

theorem seed_prices_times_75:
  "map (\<lambda>e. get_prop e ''price'') (initialProducts pf clk mens womens kids watches) =
     map (\<lambda>r. JNum (price_in_INR pf (get_prop r ''price''))) (mens @ womens @ kids @ watches)
   \<and> length (initialProducts pf clk mens womens kids watches)
       = length (mens @ womens @ kids @ watches)
   \<and> price_in_INR pf (JStr s) = js_times (parseFloat (filter numeric_char s)) (Fin Pos 75)
   \<and> price_in_INR pf (JNum x) = js_times x (Fin Pos 75)
   \<and> price_in_INR pf (JStr ''$10.00'') = Fin Pos 750
   \<and> price_in_INR pf (JNum (Fin Pos 10)) = Fin Pos 750
   \<and> (0 \<le> n \<and> n * 75 < 2 ^ 53 \<longrightarrow>
        price_in_INR pf (JNum (Fin sg (of_int n))) = Fin sg (of_int (n * 75)))"
proof -
  have l: "length (initialProducts pf clk mens womens kids watches)
           = length (mens @ womens @ kids @ watches)"
    using arg_cong [OF initialProducts_prices [of pf clk mens womens kids watches], of length]
    by (simp only: length_map)
  have i: "0 \<le> n \<and> n * 75 < 2 ^ 53 \<longrightarrow>
        price_in_INR pf (JNum (Fin sg (of_int n))) = Fin sg (of_int (n * 75))"
    using price_in_INR_int [where n = n and s = sg and pf = pf] by (intro impI) (elim conjE)
  show ?thesis
    apply (intro conjI)
    apply (rule initialProducts_prices)
    apply (rule l)
    apply (rule price_in_INR_string)
    apply (rule price_in_INR_number)
    apply (rule price_dollar_ten)
    apply (rule price_number_ten)
    apply (rule i)
    done
qed

theorem seed_prices_times_75_witness:
  "(0::int) \<le> 4 \<and> (4::int) * 75 < 2 ^ 53
   \<and> price_in_INR example_platform (JNum (Fin Pos (of_int 4))) = Fin Pos (of_int (4 * 75))
   \<and> map (\<lambda>e. get_prop e ''price'')
        (initialProducts example_platform (\<lambda>k. 1700000000000) [seed_a] [seed_b] [seed_a] [seed_b])
      = [JNum (Fin Pos 750), JNum (Fin Pos 750), JNum (Fin Pos 750), JNum (Fin Pos 750)]"
proof -
  have a: "get_prop seed_a ''price'' = JStr ''$10.00''" by (simp add: seed_a_def get_prop_def)
  have b: "get_prop seed_b ''price'' = JNum (Fin Pos 10)" by (simp add: seed_b_def get_prop_def)
  show ?thesis
    using seed_prices_times_75 [of example_platform "\<lambda>k. 1700000000000" "[seed_a]" "[seed_b]"
        "[seed_a]" "[seed_b]" "''''" NaN 4 Pos]
    by (simp add: a b)
qed

text \<open>
  C2. For every input record, \<open>addProduct\<close> appends exactly one entry at the end of the
  list it captured. The entry's identifier is the clock reading in milliseconds turned
  into a string (its decimal digits), whatever identifier the input carried; its stock
  flag is \<open>true\<close>; its sizes are the input's, or \<open>['S','M','L','XL']\<close> when the input has
  none (or a falsy value); its media are the input's, or the empty array likewise; its
  two timestamps are the ISO renderings of the clock readings taken for them. Every
  other field is the input's. The whole new list is written to the slot \<open>products\<close>.
\<close>

theorem addProduct_appends_new_entry:
  assumes "wf_obj product"
  shows "products (addProduct pf clk product st) = products st @ [newProduct pf clk product]
    \<and> get_prop (newProduct pf clk product) ''id'' = JStr (js_String pf (Date_now (clk 0)))
    \<and> (\<bar>clk 0\<bar> < 2 ^ 53 \<longrightarrow>
         js_String pf (Date_now (clk 0)) =
           (if clk 0 < 0 then ''-'' else '''') @ dec_digits (nat \<bar>clk 0\<bar>))
    \<and> get_prop (newProduct pf clk product) ''inStock'' = JBool True
    \<and> get_prop (newProduct pf clk product) ''sizes'' =
          (if ToBoolean (get_prop product ''sizes'') then get_prop product ''sizes''
           else JArr [JStr ''S'', JStr ''M'', JStr ''L'', JStr ''XL''])
    \<and> get_prop (newProduct pf clk product) ''media'' =
          (if ToBoolean (get_prop product ''media'') then get_prop product ''media'' else JArr [])
    \<and> (map_of product ''sizes'' = None \<longrightarrow>
          get_prop (newProduct pf clk product) ''sizes'' =
            JArr [JStr ''S'', JStr ''M'', JStr ''L'', JStr ''XL''])
    \<and> (map_of product ''media'' = None \<longrightarrow>
          get_prop (newProduct pf clk product) ''media'' = JArr [])
    \<and> get_prop (newProduct pf clk product) ''createdAt'' = JStr (toISOString pf (clk 1))
    \<and> get_prop (newProduct pf clk product) ''updatedAt'' = JStr (toISOString pf (clk 2))
    \<and> (\<forall>k. k \<notin> {''id'', ''inStock'', ''sizes'', ''media'', ''createdAt'', ''updatedAt''} \<longrightarrow>
          map_of (newProduct pf clk product) k = map_of product k)
    \<and> localStorage (addProduct pf clk product st) =
          (localStorage st)(''products'' \<mapsto>
             JSON_stringify pf (products st @ [newProduct pf clk product]))"
proof -
  note f = newProduct_fields [OF assms, of pf clk]
  have other: "\<forall>k. k \<notin> {''id'', ''inStock'', ''sizes'', ''media'', ''createdAt'', ''updatedAt''} \<longrightarrow>
          map_of (newProduct pf clk product) k = map_of product k"
    by (intro allI impI) (rule newProduct_other [OF assms])
  have s: "map_of product ''sizes'' = None \<longrightarrow>
          get_prop (newProduct pf clk product) ''sizes'' =
            JArr [JStr ''S'', JStr ''M'', JStr ''L'', JStr ''XL'']"
    using f(3) absent_falsy [of product "''sizes''"] by simp
  have m: "map_of product ''media'' = None \<longrightarrow>
          get_prop (newProduct pf clk product) ''media'' = JArr []"
    using f(4) absent_falsy [of product "''media''"] by simp
  have d: "\<bar>clk 0\<bar> < 2 ^ 53 \<longrightarrow>
         js_String pf (Date_now (clk 0)) =
           (if clk 0 < 0 then ''-'' else '''') @ dec_digits (nat \<bar>clk 0\<bar>)"
    by (intro impI) (rule js_String_Date_now)
  show ?thesis
    apply (intro conjI)
    apply (rule addProduct_store(1))
    apply (rule f(1))
    apply (rule d)
    apply (rule f(2))
    apply (rule f(3))
    apply (rule f(4))
    apply (rule s)
    apply (rule m)
    apply (rule f(5))
    apply (rule f(6))
    apply (rule other)
    apply (rule addProduct_store(2))
    done
qed

theorem addProduct_appends_new_entry_witness:
  "wf_obj [(''name'', JStr ''Cap''), (''id'', JStr ''mine''), (''category'', JStr ''Men'')]
   \<and> products (addProduct example_platform (\<lambda>k. 1700000000000 + int k)
        [(''name'', JStr ''Cap''), (''id'', JStr ''mine''), (''category'', JStr ''Men'')] two_products)
     = [shirt, watch,
        [(''name'', JStr ''Cap''), (''id'', JStr ''1700000000000''), (''category'', JStr ''Men''),
         (''inStock'', JBool True),
         (''sizes'', JArr [JStr ''S'', JStr ''M'', JStr ''L'', JStr ''XL'']),
         (''media'', JArr []),
         (''createdAt'', JStr (toISOString example_platform 1700000000001)),
         (''updatedAt'', JStr (toISOString example_platform 1700000000002))]]"
proof -
  let ?p = "[(''name'', JStr ''Cap''), (''id'', JStr ''mine''), (''category'', JStr ''Men'')]"
  have wf: "wf_obj ?p" by (simp add: wf_obj_def)
  have "newProduct example_platform (\<lambda>k. 1700000000000 + int k) ?p =
        [(''name'', JStr ''Cap''), (''id'', JStr ''1700000000000''), (''category'', JStr ''Men''),
         (''inStock'', JBool True),
         (''sizes'', JArr [JStr ''S'', JStr ''M'', JStr ''L'', JStr ''XL'']),
         (''media'', JArr []),
         (''createdAt'', JStr (toISOString example_platform 1700000000001)),
         (''updatedAt'', JStr (toISOString example_platform 1700000000002))]"
    by (simp add: newProduct_def object_literal_def spread_def set_prop_def js_or_def get_prop_def
        js_String_Date_now_example)
  then show ?thesis
    using addProduct_appends_new_entry [OF wf, of example_platform "\<lambda>k. 1700000000000 + int k" two_products] wf
    by (simp add: two_products_def)
qed

text \<open>
  C3. When the input's identifier is strictly equal to that of the entry at position
  \<open>i\<close>, \<open>updateProduct\<close> puts at that position the input itself with \<open>updatedAt\<close> set to
  the ISO rendering of a clock reading (one reading for each matching entry, in list
  order). The new entry has the input's fields and no others: a field the old entry
  had and the input lacks is gone, and \<open>createdAt\<close> is there exactly when the input
  carries it, with the input's value. The list keeps its length, and the entries with
  another identifier stay as they were.
\<close>

theorem updateProduct_replaces_match:
  assumes "wf_obj x"
    and "i < length (products st)"
    and "strict_eq (get_prop (products st ! i) ''id'') (get_prop x ''id'')"
  shows "products (updateProduct pf clk x st) ! i =
           set_prop ''updatedAt''
             (JStr (toISOString pf (clk (length (filter
                (\<lambda>p. strict_eq (get_prop p ''id'') (get_prop x ''id'')) (take i (products st)))))))
             x
    \<and> map_of (products (updateProduct pf clk x st) ! i) =
          (map_of x)(''updatedAt'' \<mapsto>
             JStr (toISOString pf (clk (length (filter
                (\<lambda>p. strict_eq (get_prop p ''id'') (get_prop x ''id'')) (take i (products st)))))))
    \<and> map_of (products (updateProduct pf clk x st) ! i) ''createdAt'' = map_of x ''createdAt''
    \<and> length (products (updateProduct pf clk x st)) = length (products st)
    \<and> (j < length (products st)
           \<and> \<not> strict_eq (get_prop (products st ! j) ''id'') (get_prop x ''id'') \<longrightarrow>
         products (updateProduct pf clk x st) ! j = products st ! j)"
proof -
  let ?n = "length (filter (\<lambda>p. strict_eq (get_prop p ''id'') (get_prop x ''id''))
                     (take i (products st)))"
  have e: "products (updateProduct pf clk x st) ! i =
           set_prop ''updatedAt'' (JStr (toISOString pf (clk ?n))) x"
    using update_entries_nth [OF assms(2), of pf clk 0 x] assms(3)
    by (simp add: updateProduct_store(1) object_literal_one [OF assms(1)])
  have m: "map_of (products (updateProduct pf clk x st) ! i) =
          (map_of x)(''updatedAt'' \<mapsto> JStr (toISOString pf (clk ?n)))"
    by (simp only: e map_of_set_prop)
  have c: "map_of (products (updateProduct pf clk x st) ! i) ''createdAt'' = map_of x ''createdAt''"
    by (simp add: m)
  have l: "length (products (updateProduct pf clk x st)) = length (products st)"
    by (simp add: updateProduct_store(1) update_entries_length)
  have o: "j < length (products st)
           \<and> \<not> strict_eq (get_prop (products st ! j) ''id'') (get_prop x ''id'') \<longrightarrow>
         products (updateProduct pf clk x st) ! j = products st ! j"
    using update_entries_nth [of j "products st" pf clk 0 x]
    by (simp add: updateProduct_store(1))
  show ?thesis
    by (intro conjI) (rule e, rule m, rule c, rule l, rule o)
qed

theorem updateProduct_replaces_match_witness:
  "wf_obj [(''id'', JStr ''1''), (''price'', JNum (Fin Pos 900))]
   \<and> 0 < length (products two_products)
   \<and> strict_eq (get_prop (products two_products ! 0) ''id'')
        (get_prop [(''id'', JStr ''1''), (''price'', JNum (Fin Pos 900))] ''id'')
   \<and> products (updateProduct example_platform (\<lambda>k. 1700000000000)
        [(''id'', JStr ''1''), (''price'', JNum (Fin Pos 900))] two_products) ! 0
      = [(''id'', JStr ''1''), (''price'', JNum (Fin Pos 900)),
         (''updatedAt'', JStr (toISOString example_platform 1700000000000))]
   \<and> map_of (products (updateProduct example_platform (\<lambda>k. 1700000000000)
        [(''id'', JStr ''1''), (''price'', JNum (Fin Pos 900))] two_products) ! 0) ''createdAt'' = None
   \<and> map_of (products two_products ! 0) ''createdAt'' = Some (JStr ''2024-01-01T00:00:00.000Z'')
   \<and> products (updateProduct example_platform (\<lambda>k. 1700000000000)
        [(''id'', JStr ''1''), (''price'', JNum (Fin Pos 900))] two_products) ! 1 = watch"
proof -
  let ?x = "[(''id'', JStr ''1''), (''price'', JNum (Fin Pos 900))]"
  have wf: "wf_obj ?x" by (simp add: wf_obj_def)
  have i: "0 < length (products two_products)" by (simp add: two_products_def)
  have eq: "strict_eq (get_prop (products two_products ! 0) ''id'') (get_prop ?x ''id'')"
    by (simp add: two_products_def shirt_def get_prop_def)
  have old: "map_of (products two_products ! 0) ''createdAt'' = Some (JStr ''2024-01-01T00:00:00.000Z'')"
    by (simp add: two_products_def shirt_def)
  have other: "get_prop (products two_products ! 1) ''id'' = JStr ''2''"
    by (simp add: two_products_def watch_def get_prop_def)
  show ?thesis
    using updateProduct_replaces_match [OF wf i eq, of example_platform "\<lambda>k. 1700000000000" 1]
      wf i eq old other
    by (simp add: set_prop_def get_prop_def two_products_def)
qed

text \<open>
  C4. When the input's identifier is strictly equal to that of no entry, \<open>updateProduct\<close>
  returns the list as it was, entry by entry and in the same order, and leaves the
  loading flag and the error message alone. It has no failing branch: it returns a
  state for every input. (The unchanged list is still written to the slot.)
\<close>

theorem updateProduct_no_match_unchanged:
  assumes "\<forall>p \<in> set (products st). \<not> strict_eq (get_prop p ''id'') (get_prop x ''id'')"
  shows "products (updateProduct pf clk x st) = products st
    \<and> loading (updateProduct pf clk x st) = loading st
    \<and> error (updateProduct pf clk x st) = error st
    \<and> localStorage (updateProduct pf clk x st) =
         (localStorage st)(''products'' \<mapsto> JSON_stringify pf (products st))"
  by (simp add: updateProduct_store update_entries_no_match [OF assms])

theorem updateProduct_no_match_unchanged_witness:
  "products two_products = [shirt, watch]
   \<and> \<not> strict_eq (get_prop shirt ''id'') (get_prop [(''id'', JStr ''3''), (''name'', JStr ''Hat'')] ''id'')
   \<and> \<not> strict_eq (get_prop watch ''id'') (get_prop [(''id'', JStr ''3''), (''name'', JStr ''Hat'')] ''id'')
   \<and> products (updateProduct example_platform (\<lambda>k. 1700000000000)
        [(''id'', JStr ''3''), (''name'', JStr ''Hat'')] two_products) = [shirt, watch]"
proof -
  have h: "\<forall>p \<in> set (products two_products).
       \<not> strict_eq (get_prop p ''id'') (get_prop [(''id'', JStr ''3''), (''name'', JStr ''Hat'')] ''id'')"
    by (simp add: two_products_def shirt_def watch_def get_prop_def)
  show ?thesis
    using updateProduct_no_match_unchanged [OF h, of example_platform "\<lambda>k. 1700000000000"] h
    by (simp add: two_products_def)
qed

text \<open>
  C5, as amended. \<open>deleteProduct id\<close> keeps, in order, exactly the entries whose
  identifier is not the string \<open>id\<close>: it removes every entry with that identifier,
  however many there are. The length goes down by the number of such entries: by
  exactly one when exactly one entry has the identifier, and by zero (the list is
  unchanged) when none has.
\<close>

theorem deleteProduct_removes_all_matches:
  "products (deleteProduct pf i st) = filter (\<lambda>p. get_prop p ''id'' \<noteq> JStr i) (products st)
   \<and> length (products (deleteProduct pf i st))
       + length (filter (\<lambda>p. get_prop p ''id'' = JStr i) (products st))
       = length (products st)
   \<and> (length (filter (\<lambda>p. get_prop p ''id'' = JStr i) (products st)) = 1 \<longrightarrow>
        Suc (length (products (deleteProduct pf i st))) = length (products st))
   \<and> (filter (\<lambda>p. get_prop p ''id'' = JStr i) (products st) = [] \<longrightarrow>
        products (deleteProduct pf i st) = products st)"
proof -
  have p: "products (deleteProduct pf i st) = filter (\<lambda>p. get_prop p ''id'' \<noteq> JStr i) (products st)"
    by (simp add: deleteProduct_store(1) strict_eq_JStr)
  have l: "length (products (deleteProduct pf i st))
           + length (filter (\<lambda>p. get_prop p ''id'' = JStr i) (products st)) = length (products st)"
    using length_filter_split [of "\<lambda>p. get_prop p ''id'' = JStr i" "products st"]
    by (simp only: p)
  have one: "length (filter (\<lambda>p. get_prop p ''id'' = JStr i) (products st)) = 1 \<longrightarrow>
        Suc (length (products (deleteProduct pf i st))) = length (products st)"
    using l by simp
  have none: "filter (\<lambda>p. get_prop p ''id'' = JStr i) (products st) = [] \<longrightarrow>
        products (deleteProduct pf i st) = products st"
    by (simp add: p filter_empty_conv)
  show ?thesis
    by (intro conjI) (rule p, rule l, rule one, rule none)
qed

theorem deleteProduct_removes_all_matches_witness:
  "length (filter (\<lambda>p. get_prop p ''id'' = JStr ''2'') (products two_products)) = 1
   \<and> products (deleteProduct example_platform ''2'' two_products) = [shirt]
   \<and> filter (\<lambda>p. get_prop p ''id'' = JStr ''9'') (products two_products) = []
   \<and> products (deleteProduct example_platform ''9'' two_products) = [shirt, watch]"
proof -
  have a: "get_prop shirt ''id'' = JStr ''1''" by (simp add: shirt_def get_prop_def)
  have b: "get_prop watch ''id'' = JStr ''2''" by (simp add: watch_def get_prop_def)
  show ?thesis
    using deleteProduct_removes_all_matches [of example_platform "''2''" two_products]
          deleteProduct_removes_all_matches [of example_platform "''9''" two_products]
    by (simp add: two_products_def a b)
qed

text \<open>
  The claim as stated fails on a list with a repeated identifier, and the code does
  not keep identifiers unique. Two calls of \<open>addProduct\<close> within one millisecond give
  such a list: both entries get the identifier \<open>1700000000000\<close>, and deleting it takes
  the length from two to zero. So do two source lists that number their records alike:
  the seed list then has two entries with the identifier \<open>1\<close>.
\<close>

theorem deleteProduct_length_counterexample:
  "length (products (addProduct example_platform (\<lambda>k. 1700000000000) []
             (addProduct example_platform (\<lambda>k. 1700000000000) [] empty_store))) = 2
   \<and> get_prop (products (addProduct example_platform (\<lambda>k. 1700000000000) []
             (addProduct example_platform (\<lambda>k. 1700000000000) [] empty_store)) ! 0) ''id''
       = JStr ''1700000000000''
   \<and> length (products (deleteProduct example_platform ''1700000000000''
        (addProduct example_platform (\<lambda>k. 1700000000000) []
             (addProduct example_platform (\<lambda>k. 1700000000000) [] empty_store)))) = 0
   \<and> length (products seeded_twice) = 2
   \<and> get_prop (products seeded_twice ! 0) ''id'' = JStr ''1''
   \<and> length (products (deleteProduct example_platform ''1'' seeded_twice)) = 0"
proof -
  have n: "get_prop (newProduct example_platform (\<lambda>k. 1700000000000) []) ''id'' = JStr ''1700000000000''"
    by (simp add: newProduct_fields(1) wf_obj_def js_String_Date_now_example)
  have a: "length (products (addProduct example_platform (\<lambda>k. 1700000000000) []
             (addProduct example_platform (\<lambda>k. 1700000000000) [] empty_store))) = 2
   \<and> get_prop (products (addProduct example_platform (\<lambda>k. 1700000000000) []
             (addProduct example_platform (\<lambda>k. 1700000000000) [] empty_store)) ! 0) ''id''
       = JStr ''1700000000000''
   \<and> length (products (deleteProduct example_platform ''1700000000000''
        (addProduct example_platform (\<lambda>k. 1700000000000) []
             (addProduct example_platform (\<lambda>k. 1700000000000) [] empty_store)))) = 0"
    by (simp add: addProduct_store(1) deleteProduct_store(1) empty_store_def n)
  have s: "length (products seeded_twice) = 2
   \<and> get_prop (products seeded_twice ! 0) ''id'' = JStr ''1''
   \<and> length (products (deleteProduct example_platform ''1'' seeded_twice)) = 0"
    by (simp del: convertToINR.simps add: seeded_twice_def initialProducts_def
        convertToINR_example convertToINR_Nil deleteProduct_store(1) get_prop_def)
  show ?thesis using a s by simp
qed

text \<open>
  C6. \<open>getProductsByCategory\<close> returns the whole list for the argument \<open>All\<close>, and
  otherwise exactly the entries, in order, whose category field is the argument
  string itself: equality of strings, so a different case or a part of the name does
  not match. It reads only the list and returns no state: nothing is changed or
  persisted.
\<close>

theorem getProductsByCategory_filter:
  "getProductsByCategory category st =
     (if category = ''All'' then products st
      else filter (\<lambda>p. get_prop p ''category'' = JStr category) (products st))
   \<and> getProductsByCategory category (st\<lparr>loading := l, error := e, localStorage := ls\<rparr>)
       = getProductsByCategory category st"
  by (simp add: getProductsByCategory_def strict_eq_JStr)

theorem getProductsByCategory_filter_witness:
  "getProductsByCategory ''Watches'' two_products = [watch]
   \<and> getProductsByCategory ''All'' two_products = [shirt, watch]
   \<and> getProductsByCategory ''watches'' two_products = []
   \<and> getProductsByCategory ''Watch'' two_products = []"
proof -
  have a: "get_prop shirt ''category'' = JStr ''Men''" by (simp add: shirt_def get_prop_def)
  have b: "get_prop watch ''category'' = JStr ''Watches''" by (simp add: watch_def get_prop_def)
  show ?thesis
    using getProductsByCategory_filter [of "''Watches''" two_products]
          getProductsByCategory_filter [of "''All''" two_products]
          getProductsByCategory_filter [of "''watches''" two_products]
          getProductsByCategory_filter [of "''Watch''" two_products]
    by (simp add: two_products_def a b)
qed

text \<open>
  C7, as amended. When the slot holds a non-empty text that the parser rejects,
  \<open>refreshProducts\<close> leaves the list as it was, sets the error message
  \<open>Failed to refresh products\<close> (which is not empty) and ends without an exception.
  Whatever the slot holds, the loading flag is false afterwards and the call ends
  without an exception.
\<close>

theorem refreshProducts_unparseable:
  assumes "getItem st ''products'' = Some s"
    and "s \<noteq> ''''"
    and "JSON_parse pf s = None"
  shows "refreshProducts pf ini st =
           (st\<lparr>loading := False, error := Some ''Failed to refresh products''\<rparr>, None)
    \<and> products (fst (refreshProducts pf ini st)) = products st
    \<and> error (fst (refreshProducts pf ini st)) = Some ''Failed to refresh products''
    \<and> ''Failed to refresh products'' \<noteq> ''''
    \<and> loading (fst (refreshProducts pf' ini' st')) = False
    \<and> snd (refreshProducts pf' ini' st') = None"
proof -
  have r: "refreshProducts pf ini st =
           (st\<lparr>loading := False, error := Some ''Failed to refresh products''\<rparr>, None)"
    using assms by (simp add: refresh_cases getItem_def)
  have l: "loading (fst (refreshProducts pf' ini' st')) = False"
    by (simp add: refresh_cases split: option.splits)
  have n: "snd (refreshProducts pf' ini' st') = None"
    by (simp add: refresh_cases split: option.splits)
  show ?thesis
    by (simp add: r l n)
qed

theorem refreshProducts_unparseable_witness:
  "getItem corrupt_slot ''products'' = Some ''{not json''
   \<and> JSON_parse example_platform ''{not json'' = None
   \<and> refreshProducts example_platform [watch] corrupt_slot =
       (\<lparr>products = [shirt], loading = False, error = Some ''Failed to refresh products'',
         localStorage = [''products'' \<mapsto> ''{not json'']\<rparr>, None)"
proof -
  have g: "getItem corrupt_slot ''products'' = Some ''{not json''"
    by (simp add: getItem_def corrupt_slot_def)
  have ne: "''{not json'' \<noteq> ''''" by simp
  have p: "JSON_parse example_platform ''{not json'' = None"
    by (simp add: example_platform_def)
  show ?thesis
    using refreshProducts_unparseable [OF g ne p, of "[watch]"] g p
    by (simp add: corrupt_slot_def)
qed

text \<open>
  The claim as stated fails when the slot holds the empty text, which no JSON parser
  accepts: the guard \<open>if (storedProducts)\<close> takes the empty string for an absent
  slot, so the list is reset to the seed list and no error is set.
\<close>

theorem refreshProducts_blank_slot_counterexample:
  "getItem blank_slot ''products'' = Some ''''
   \<and> JSON_parse example_platform '''' = None
   \<and> products blank_slot = [shirt]
   \<and> products (fst (refreshProducts example_platform [watch] blank_slot)) = [watch]
   \<and> error (fst (refreshProducts example_platform [watch] blank_slot)) = None"
  by (simp add: refresh_cases getItem_def blank_slot_def example_platform_def)

text \<open>
  C8. After \<open>addProduct\<close>, \<open>updateProduct\<close> and \<open>deleteProduct\<close> the slot \<open>products\<close> holds
  the serialization of the whole list of the new state, whatever it held before;
  nothing else in the storage changes.
\<close>

theorem mutations_persist_full_list:
  "localStorage (addProduct pf clk p st) =
     (localStorage st)(''products'' \<mapsto> JSON_stringify pf (products (addProduct pf clk p st)))
   \<and> localStorage (updateProduct pf clk p st) =
     (localStorage st)(''products'' \<mapsto> JSON_stringify pf (products (updateProduct pf clk p st)))
   \<and> localStorage (deleteProduct pf i st) =
     (localStorage st)(''products'' \<mapsto> JSON_stringify pf (products (deleteProduct pf i st)))"
  by (simp add: addProduct_store updateProduct_store deleteProduct_store)

text \<open>
  C9. Outside any provider \<open>useProducts\<close> throws an \<open>Error\<close> with the message
  \<open>useProducts must be used within a ProductProvider\<close> and returns no value; inside
  one it returns the nearest provider's value. The message is not empty.
\<close>

theorem useProducts_outside_provider:
  "useProducts [] = Inl (Error ''useProducts must be used within a ProductProvider'')
   \<and> ''useProducts must be used within a ProductProvider'' \<noteq> ''''
   \<and> useProducts (c # cs) = Inr c"
  by (simp add: useProducts_def useContext_def)

text \<open>
  C10. The \<open>try\<close> block of \<open>refreshProducts\<close> sets the error field to \<open>null\<close> before it
  reads the slot, so the state it reaches has no error whatever the state before
  held. After the call the error field is \<open>null\<close> exactly when the block threw
  nothing: when the slot is absent or empty (the list becomes the seed list) and when
  its text parses (the list becomes the parsed one).
\<close>

theorem refreshProducts_clears_error:
  "error (fst (refresh_try pf ini st)) = None
   \<and> error (fst (refreshProducts pf ini st)) =
        (case snd (refresh_try pf ini st) of None \<Rightarrow> None
         | Some err \<Rightarrow> Some ''Failed to refresh products'')
   \<and> refreshProducts pf ini st =
        (case getItem st ''products'' of
           None \<Rightarrow> (st\<lparr>products := ini, loading := False, error := None\<rparr>, None)
         | Some s \<Rightarrow>
             if s = '''' then (st\<lparr>products := ini, loading := False, error := None\<rparr>, None)
             else (case JSON_parse pf s of
                     None \<Rightarrow> (st\<lparr>loading := False, error := Some ''Failed to refresh products''\<rparr>, None)
                   | Some ps \<Rightarrow> (st\<lparr>products := ps, loading := False, error := None\<rparr>, None)))"
proof -
  have a: "error (fst (refresh_try pf ini st)) = None"
    by (simp add: refresh_try_def setLoading_def setError_def setProducts_def getItem_def Let_def
        split: option.splits)
  have b: "error (fst (refreshProducts pf ini st)) =
        (case snd (refresh_try pf ini st) of None \<Rightarrow> None
         | Some err \<Rightarrow> Some ''Failed to refresh products'')"
    using a by (simp add: refreshProducts_def refresh_finally_def refresh_catch_def
        setLoading_def setError_def split: option.splits)
  show ?thesis
    by (simp add: a b getItem_def) (simp add: refresh_cases)
qed

theorem refreshProducts_clears_error_witness:
  "error failed_before = Some ''Failed to refresh products''
   \<and> refreshProducts example_platform [watch] failed_before =
       (\<lparr>products = [], loading = False, error = None,
         localStorage = [''products'' \<mapsto> ''[]'']\<rparr>, None)
   \<and> refreshProducts example_platform [watch] (failed_before\<lparr>localStorage := Map.empty\<rparr>) =
       (\<lparr>products = [watch], loading = False, error = None, localStorage = Map.empty\<rparr>, None)"
  using refreshProducts_clears_error [of example_platform "[watch]" failed_before]
        refreshProducts_clears_error [of example_platform "[watch]" "failed_before\<lparr>localStorage := Map.empty\<rparr>"]
  by (simp add: failed_before_def example_platform_def getItem_def)

end
